theory Spec2Isabelle
  imports Main
begin

section \<open>Coordinates and the location codec\<close>

text \<open>
  \<^verbatim>\<open>type coords struct { x, y int }\<close>.  The arithmetic on the fields stays far inside
  the range of Go's \<^verbatim>\<open>int\<close>, so they are modelled as \<^typ>\<open>int\<close>.
\<close>

record coords =
  x :: int
  y :: int

datatype panic =
    IllegalCoordinates coords
  | IllegalOperation
  | PieceAlreadyExists coords
  | NoPieceAt coords
  | IllegalBoardOperation
  | CloseOfNilChannel
  | CloseOfClosedChannel
  | SendOnClosedChannel

text \<open>
  \<^verbatim>\<open>func (c coords) String() string\<close>: panics outside the 8x8 grid, otherwise the
  column letter taken from \<^verbatim>\<open>"ABCDEFGH"[c.x]\<close> followed by \<^verbatim>\<open>c.y+1\<close> in decimal.
  Inside the grid \<^verbatim>\<open>c.y+1\<close> has the single digit \<^verbatim>\<open>"12345678"[c.y]\<close>.
\<close>

definition coords_String :: "coords \<Rightarrow> panic + string" where
  "coords_String L =
     (if x L < 0 \<or> 7 < x L \<or> y L < 0 \<or> 7 < y L then Inl (IllegalCoordinates L)
      else Inr [''ABCDEFGH'' ! nat (x L), ''12345678'' ! nat (y L)])"

text \<open>
  The scanner state handed to \<^verbatim>\<open>Scan\<close> is the list of runes (code points) not yet
  read.  \<^verbatim>\<open>state.ReadRune()\<close> yields the next rune; at the end of the input it yields
  rune 0 together with an error, which \<^verbatim>\<open>Scan\<close> discards.
\<close>

type_synonym rune = int

definition rune_of :: "char \<Rightarrow> rune" where
  "rune_of ch = of_char ch"

definition ReadRune :: "rune list \<Rightarrow> rune \<times> rune list" where
  "ReadRune state = (case state of [] \<Rightarrow> (0, []) | r # rest \<Rightarrow> (r, rest))"

text \<open>
  \<^verbatim>\<open>func (c *coords) Scan(state fmt.ScanState, verb rune) error\<close>.  The result is the
  error (\<open>Inl\<close>, the receiver is left as it was) or the coordinates written through
  the receiver (\<open>Inr\<close>), together with the scanner state left behind.
\<close>

datatype scan_error = IllegalChessCoordinates rune rune

definition coords_Scan :: "rune list \<Rightarrow> (scan_error + coords) \<times> rune list" where
  "coords_Scan state =
     (let (rx, state1) = ReadRune state;
          (ry, state2) = ReadRune state1
      in if rx < rune_of CHR ''A'' \<or> rune_of CHR ''G'' < rx
            \<or> ry < rune_of CHR ''1'' \<or> rune_of CHR ''8'' < ry
         then (Inl (IllegalChessCoordinates rx ry), state2)
         else (Inr \<lparr>x = rx - rune_of CHR ''A'', y = ry - rune_of CHR ''1''\<rparr>, state2))"

text \<open>The runes of an ASCII text, as \<^verbatim>\<open>fmt.Sscan\<close> reads them from a string.\<close>

definition runes :: "string \<Rightarrow> rune list" where
  "runes s = map rune_of s"

section \<open>Pieces, messages and channels\<close>

datatype pieceBareType = PAWN | KNIGHT | BISHOP | ROOK | QUEEN | KING

datatype pieceColor = BLACK | WHITE

record pieceType =
  t :: pieceBareType
  c :: pieceColor

text \<open>
  A channel value is \<^verbatim>\<open>nil\<close> or a channel made by \<^verbatim>\<open>make\<close>, identified by its
  allocation number.  \<^verbatim>\<open>type piece chan<- pop\<close> is the handle of a piece.
\<close>

datatype chan = NilChan | Chan nat

type_synonym piece = chan

text \<open>
  \<^verbatim>\<open>type pop interface{}\<close> with the six message types of \<^verbatim>\<open>spawnPiece\<close>'s switch;
  \<open>PopOther\<close> is a value of any other dynamic type.
\<close>

datatype pop =
    PopGetCoords chan
  | PopSetCoords coords
  | PopMove coords
  | PopKill chan
  | PopSetType pieceType
  | PopGetType chan
  | PopOther

text \<open>
  \<^verbatim>\<open>type bop interface{}\<close> with the message types of \<^verbatim>\<open>runBoard\<close>'s switch that the
  properties below use; \<open>BopOther\<close> is a value of a dynamic type the switch does not
  name.  \<^verbatim>\<open>bopGetAllPieces\<close>, whose reply order is Go's unspecified map iteration
  order, is left out of the model together with \<^verbatim>\<open>clearBoard\<close>.
\<close>

datatype bop =
    BopNewPiece coords piece
  | BopMovePiece coords coords
  | BopGetPiece coords chan
  | BopDelPiece piece
  | BopOther

text \<open>Values travelling over the reply channels.\<close>

datatype val = VPiece piece | VCoords coords | VType pieceType

text \<open>The lines \<^verbatim>\<open>runBoard\<close> prints, by format string and arguments.\<close>

datatype line =
    NewPieceLine pieceType coords
  | MoveLine pieceType coords coords
  | DeletedLine coords

datatype event =
    BoardGot bop
  | PieceGot nat pop
  | Sent nat val
  | Closed nat
  | MapPut coords piece
  | MapDel coords
  | LocSet nat coords
  | TypeSet nat pieceType
  | Exited nat
  | Printed line

text \<open>The local variables \<^verbatim>\<open>loc\<close> and \<^verbatim>\<open>pt\<close> of one \<^verbatim>\<open>spawnPiece\<close> goroutine.\<close>

record pstate =
  loc :: coords
  pt :: pieceType

text \<open>
  The state of the running process:
  \<^item> \<open>pieces\<close>: the map \<^verbatim>\<open>pieces\<close> local to \<^verbatim>\<open>runBoard\<close>;
  \<^item> \<open>boardc\<close>: the message \<^verbatim>\<open>runBoard\<close> has received from its channel and not yet
    dispatched on; \<open>None\<close> when it waits at \<^verbatim>\<open>for o := range c\<close>;
  \<^item> \<open>actors\<close>: the goroutines running \<^verbatim>\<open>spawnPiece\<close>, by the number of their control
    channel, each waiting at \<^verbatim>\<open>for op := range c\<close>; \<open>None\<close> where no goroutine
    receives (never started, or returned);
  \<^item> \<open>chans\<close>: for each reply channel, the values sent and not yet received, and
    whether it is closed;
  \<^item> \<open>nextc\<close>: the number the next \<^verbatim>\<open>make(chan ...)\<close> gives out;
  \<^item> \<open>trace\<close>: what has happened so far, oldest first.

  The model runs one goroutine at a time.  A piece that has received a message runs its
  round to the end; a message sent to the board waits in \<open>boardc\<close> until the board
  runs its round (\<open>runBoard\<close> below), in which the pieces it asks answer at once.  This
  is one of the schedules of the Go program, the one in which a client waits for the
  board to come back to its \<^verbatim>\<open>range\<close> before its next operation; the trace lists the
  events in the order of this schedule.
\<close>

record world =
  pieces :: "coords \<rightharpoonup> piece"
  boardc :: "bop option"
  actors :: "nat \<rightharpoonup> pstate"
  chans :: "nat \<rightharpoonup> val list \<times> bool"
  nextc :: nat
  trace :: "event list"

text \<open>
  A statement run in a world returns, panics (which ends the whole process), or
  blocks: the goroutine running it cannot go on in that world.  Each outcome carries
  the world at that point.
\<close>

datatype 'a outcome = Returns 'a world | Panics panic world | Blocks world

text \<open>The value returned, if the statement returned, and the world it ended in.\<close>

fun returned :: "'a outcome \<Rightarrow> 'a option" where
  "returned (Returns a w) = Some a"
| "returned (Panics e w) = None"
| "returned (Blocks w) = None"

fun after :: "'a outcome \<Rightarrow> world" where
  "after (Returns a w) = w"
| "after (Panics e w) = w"
| "after (Blocks w) = w"

fun andThen :: "'a outcome \<Rightarrow> ('a \<Rightarrow> world \<Rightarrow> 'b outcome) \<Rightarrow> 'b outcome" where
  "andThen (Returns a w) f = f a w"
| "andThen (Panics e w) f = Panics e w"
| "andThen (Blocks w) f = Blocks w"

definition emit :: "event \<Rightarrow> world \<Rightarrow> world" where
  "emit e w = w\<lparr>trace := trace w @ [e]\<rparr>"

text \<open>\<^verbatim>\<open>make(chan T)\<close>: a new, open, empty channel.\<close>

definition make_chan :: "world \<Rightarrow> chan \<times> world" where
  "make_chan w =
     (Chan (nextc w),
      w\<lparr>chans := (chans w)(nextc w \<mapsto> ([], False)), nextc := Suc (nextc w)\<rparr>)"

text \<open>
  \<^verbatim>\<open>ch <- v\<close> on a reply channel.  The channels are unbuffered; every requester in
  the source receives on the reply channel right after its request, so the send is
  modelled as handing the value over.  A send on \<^verbatim>\<open>nil\<close>, or on a channel no one has
  made, blocks for ever; a send on a closed channel panics.
\<close>

definition chan_send :: "chan \<Rightarrow> val \<Rightarrow> world \<Rightarrow> unit outcome" where
  "chan_send ch v w =
     (case ch of
        NilChan \<Rightarrow> Blocks w
      | Chan n \<Rightarrow>
          (case chans w n of
             None \<Rightarrow> Blocks w
           | Some (q, closed) \<Rightarrow>
               if closed then Panics SendOnClosedChannel w
               else Returns () (emit (Sent n v) (w\<lparr>chans := (chans w)(n \<mapsto> (q @ [v], closed))\<rparr>))))"

text \<open>\<^verbatim>\<open>close(ch)\<close>.\<close>

definition chan_close :: "chan \<Rightarrow> world \<Rightarrow> unit outcome" where
  "chan_close ch w =
     (case ch of
        NilChan \<Rightarrow> Panics CloseOfNilChannel w
      | Chan n \<Rightarrow>
          (case chans w n of
             None \<Rightarrow> Panics CloseOfNilChannel w
           | Some (q, closed) \<Rightarrow>
               if closed then Panics CloseOfClosedChannel w
               else Returns () (emit (Closed n) (w\<lparr>chans := (chans w)(n \<mapsto> (q, True))\<rparr>))))"

text \<open>
  \<^verbatim>\<open><-ch\<close>: the oldest value handed over, \<open>Some v\<close>; on a closed channel with nothing
  left Go yields the zero value of the element type, \<open>None\<close> here; otherwise the
  receiver blocks.
\<close>

definition chan_recv :: "chan \<Rightarrow> world \<Rightarrow> val option outcome" where
  "chan_recv ch w =
     (case ch of
        NilChan \<Rightarrow> Blocks w
      | Chan n \<Rightarrow>
          (case chans w n of
             None \<Rightarrow> Blocks w
           | Some (q, closed) \<Rightarrow>
               (case q of
                  v # rest \<Rightarrow> Returns (Some v) (w\<lparr>chans := (chans w)(n \<mapsto> (rest, closed))\<rparr>)
                | [] \<Rightarrow> if closed then Returns None w else Blocks w)))"

text \<open>The received value at its Go type, the zero value when the channel was closed.\<close>

definition zero_coords :: coords where
  "zero_coords = \<lparr>x = 0, y = 0\<rparr>"

definition zero_pieceType :: pieceType where
  "zero_pieceType = \<lparr>t = PAWN, c = BLACK\<rparr>"

fun val_piece :: "val option \<Rightarrow> piece" where
  "val_piece (Some (VPiece p)) = p"
| "val_piece _ = NilChan"

fun val_coords :: "val option \<Rightarrow> coords" where
  "val_coords (Some (VCoords L)) = L"
| "val_coords _ = zero_coords"

fun val_type :: "val option \<Rightarrow> pieceType" where
  "val_type (Some (VType k)) = k"
| "val_type _ = zero_pieceType"

section \<open>The piece actor\<close>

text \<open>
  \<^verbatim>\<open>b <- op\<close>, a send to the board: it completes when \<^verbatim>\<open>runBoard\<close> waits at its
  \<^verbatim>\<open>range\<close> and takes the message.  The board then dispatches on it in \<open>runBoard\<close>
  below, while the sender goes on.
\<close>

definition board_send :: "bop \<Rightarrow> world \<Rightarrow> unit outcome" where
  "board_send msg w =
     (case boardc w of
        None \<Rightarrow> Returns () (emit (BoardGot msg) (w\<lparr>boardc := Some msg\<rparr>))
      | Some _ \<Rightarrow> Blocks w)"

definition store :: "nat \<Rightarrow> pstate \<Rightarrow> world \<Rightarrow> world" where
  "store n st w = w\<lparr>actors := (actors w)(n \<mapsto> st)\<rparr>"

text \<open>
  One round of the loop of \<^verbatim>\<open>spawnPiece(b, c)\<close>: the goroutine on control channel
  \<open>n\<close>, with local variables \<open>st\<close>, has received \<open>op\<close>.  \<^verbatim>\<open>return\<close> ends the goroutine.
\<close>

fun spawnPiece :: "nat \<Rightarrow> pstate \<Rightarrow> pop \<Rightarrow> world \<Rightarrow> unit outcome" where
  "spawnPiece n st (PopMove dst) w =
     andThen (board_send (BopMovePiece (loc st) dst) w)
       (\<lambda>_ w1. Returns () (emit (LocSet n dst) (store n (st\<lparr>loc := dst\<rparr>) w1)))"
| "spawnPiece n st (PopSetCoords L) w =
     Returns () (emit (LocSet n L) (store n (st\<lparr>loc := L\<rparr>) w))"
| "spawnPiece n st (PopGetCoords reply) w =
     andThen (chan_send reply (VCoords (loc st)) w) (\<lambda>_. chan_close reply)"
| "spawnPiece n st (PopKill reply) w =
     andThen (chan_close reply w)
       (\<lambda>_ w1. Returns () (emit (Exited n) (w1\<lparr>actors := (actors w1)(n := None)\<rparr>)))"
| "spawnPiece n st (PopSetType k) w =
     Returns () (emit (TypeSet n k) (store n (st\<lparr>pt := k\<rparr>) w))"
| "spawnPiece n st (PopGetType reply) w =
     andThen (chan_send reply (VType (pt st)) w) (\<lambda>_. chan_close reply)"
| "spawnPiece n st PopOther w = Panics IllegalOperation w"

text \<open>
  \<^verbatim>\<open>p <- op\<close>, a send to a piece: it blocks for ever on \<^verbatim>\<open>nil\<close> and on a channel no
  goroutine receives from; otherwise the piece takes the message and runs its round.
\<close>

definition piece_send :: "piece \<Rightarrow> pop \<Rightarrow> world \<Rightarrow> unit outcome" where
  "piece_send p op w =
     (case p of
        NilChan \<Rightarrow> Blocks w
      | Chan n \<Rightarrow>
          (case actors w n of
             None \<Rightarrow> Blocks w
           | Some st \<Rightarrow> spawnPiece n st op (emit (PieceGot n op) w)))"

text \<open>\<^verbatim>\<open>func (p piece) ptype() pieceType\<close>.\<close>

definition piece_ptype :: "piece \<Rightarrow> world \<Rightarrow> pieceType outcome" where
  "piece_ptype p w =
     (let (pc, w1) = make_chan w
      in andThen (piece_send p (PopGetType pc) w1)
           (\<lambda>_ w2. andThen (chan_recv pc w2) (\<lambda>v w3. Returns (val_type v) w3)))"

text \<open>
  \<^verbatim>\<open>func (p piece) validate(m popMove) error\<close>, the legality hook: \<open>None\<close> is \<^verbatim>\<open>nil\<close>.
\<close>

definition piece_validate :: "piece \<Rightarrow> pop \<Rightarrow> string option" where
  "piece_validate p m = None"

text \<open>
  \<^verbatim>\<open>func (p piece) Move(to coords) error\<close>, with the hook it calls as a parameter.
\<close>

definition Move_with :: "(piece \<Rightarrow> pop \<Rightarrow> string option) \<Rightarrow> piece \<Rightarrow> coords \<Rightarrow> world \<Rightarrow> string option outcome" where
  "Move_with hook p dst w =
     (let op = PopMove dst
      in case hook p op of
           Some err \<Rightarrow> Returns (Some err) w
         | None \<Rightarrow> andThen (piece_send p op w) (\<lambda>_ w1. Returns None w1))"

definition piece_Move :: "piece \<Rightarrow> coords \<Rightarrow> world \<Rightarrow> string option outcome" where
  "piece_Move p dst w = Move_with piece_validate p dst w"

section \<open>The board actor\<close>

definition map_put :: "coords \<Rightarrow> piece \<Rightarrow> world \<Rightarrow> world" where
  "map_put L p w = emit (MapPut L p) (w\<lparr>pieces := (pieces w)(L \<mapsto> p)\<rparr>)"

definition map_del :: "coords \<Rightarrow> world \<Rightarrow> world" where
  "map_del L w = emit (MapDel L) (w\<lparr>pieces := (pieces w)(L := None)\<rparr>)"

text \<open>
  The body of the loop of \<^verbatim>\<open>runBoard\<close> for one message.  The arguments of the panics
  and of \<^verbatim>\<open>Printf\<close> are kept unformatted (\<^verbatim>\<open>fmt\<close> recovers from a panicking
  \<^verbatim>\<open>String\<close> method, so formatting never changes the control flow).
\<close>

fun runBoard_switch :: "bop \<Rightarrow> world \<Rightarrow> unit outcome" where
  "runBoard_switch (BopNewPiece L p) w =
     (if pieces w L \<noteq> None then Panics (PieceAlreadyExists L) w
      else andThen (piece_ptype p (map_put L p w))
             (\<lambda>k w1. Returns () (emit (Printed (NewPieceLine k L)) w1)))"
| "runBoard_switch (BopMovePiece src dst) w =
     (case pieces w src of
        None \<Rightarrow> Panics (NoPieceAt src) w
      | Some p \<Rightarrow>
          andThen (piece_ptype p w)
            (\<lambda>k w1. Returns () (emit (Printed (MoveLine k src dst)) (map_put dst p (map_del src w1)))))"
| "runBoard_switch (BopGetPiece L result) w =
     (case pieces w L of
        Some p \<Rightarrow> andThen (chan_send result (VPiece p) w) (\<lambda>_. chan_close result)
      | None \<Rightarrow> chan_close result w)"
| "runBoard_switch (BopDelPiece p) w =
     (let (donec, w1) = make_chan w;
          (cc, w2) = make_chan w1
      in andThen (piece_send p (PopGetCoords cc) w2) (\<lambda>_ w3.
         andThen (chan_recv cc w3) (\<lambda>v w4.
         andThen (piece_send p (PopKill donec) w4) (\<lambda>_ w5.
         andThen (chan_recv donec w5) (\<lambda>_ w6.
           Returns () (emit (Printed (DeletedLine (val_coords v))) (map_del (val_coords v) w6)))))))"
| "runBoard_switch BopOther w = Panics IllegalBoardOperation w"

text \<open>
  One round of \<^verbatim>\<open>for o := range c\<close> in \<^verbatim>\<open>runBoard\<close>: dispatch on the message taken
  from the channel, if there is one.
\<close>

definition runBoard :: "world \<Rightarrow> unit outcome" where
  "runBoard w =
     (case boardc w of
        None \<Rightarrow> Returns () w
      | Some msg \<Rightarrow> runBoard_switch msg (w\<lparr>boardc := None\<rparr>))"

text \<open>
  \<^verbatim>\<open>func (b board) Get(loc coords) piece\<close>.  Between the send and the receive the
  caller waits while the board runs its round.
\<close>

definition board_Get :: "coords \<Rightarrow> world \<Rightarrow> piece outcome" where
  "board_Get L w =
     (let (reply, w1) = make_chan w
      in andThen (board_send (BopGetPiece L reply) w1) (\<lambda>_ w2.
         andThen (runBoard w2) (\<lambda>_ w3.
         andThen (chan_recv reply w3) (\<lambda>v w4. Returns (val_piece v) w4))))"

section \<open>Spawning and the scenarios of the properties\<close>

text \<open>\<^verbatim>\<open>go spawnPiece(b, c)\<close>: a new goroutine with zero-valued \<^verbatim>\<open>loc\<close> and \<^verbatim>\<open>pt\<close>.\<close>

definition go_spawnPiece :: "chan \<Rightarrow> world \<Rightarrow> world" where
  "go_spawnPiece ch w =
     (case ch of
        NilChan \<Rightarrow> w
      | Chan n \<Rightarrow> store n \<lparr>loc = zero_coords, pt = zero_pieceType\<rparr> w)"

text \<open>\<^verbatim>\<open>func addPiece(x, y int, pt pieceType, b board) piece\<close>.\<close>

definition addPiece :: "int \<Rightarrow> int \<Rightarrow> pieceType \<Rightarrow> world \<Rightarrow> piece outcome" where
  "addPiece px py k w =
     (let (ch, w1) = make_chan w;
          w2 = go_spawnPiece ch w1
      in andThen (piece_send ch (PopSetType k) w2) (\<lambda>_ w3.
         andThen (piece_send ch (PopSetCoords \<lparr>x = px, y = py\<rparr>) w3) (\<lambda>_ w4.
         andThen (board_send (BopNewPiece \<lparr>x = px, y = py\<rparr> ch) w4) (\<lambda>_ w5.
           Returns ch w5))))"

text \<open>
  The process right after \<^verbatim>\<open>go runBoard(boardc, boarddone)\<close>: an empty map, the
  board waiting for its first message, no piece yet.
\<close>

definition fresh :: world where
  "fresh = \<lparr>pieces = Map.empty, boardc = None, actors = Map.empty, chans = Map.empty,
            nextc = 0, trace = []\<rparr>"

text \<open>
  A client's \<^verbatim>\<open>b <- msg\<close> followed by the round in which the board handles it.
\<close>

definition board_do :: "bop \<Rightarrow> world \<Rightarrow> unit outcome" where
  "board_do msg w = andThen (board_send msg w) (\<lambda>_. runBoard)"

text \<open>
  \<^verbatim>\<open>p.Move(to)\<close> followed by the round in which the board handles the relocation
  notice the piece has sent.
\<close>

definition Move_round :: "piece \<Rightarrow> coords \<Rightarrow> world \<Rightarrow> string option outcome" where
  "Move_round p dst w =
     andThen (piece_Move p dst w) (\<lambda>err w1. andThen (runBoard w1) (\<lambda>_ w2. Returns err w2))"

text \<open>
  The round trip \<^verbatim>\<open>cc := make(chan coords); t <- popGetCoords(cc); coords := <-cc\<close>
  that \<^verbatim>\<open>runBoard\<close> makes to learn a piece's location, on its own.
\<close>

definition piece_coords :: "piece \<Rightarrow> world \<Rightarrow> coords outcome" where
  "piece_coords p w =
     (let (cc, w1) = make_chan w
      in andThen (piece_send p (PopGetCoords cc) w1)
           (\<lambda>_ w2. andThen (chan_recv cc w2) (\<lambda>v w3. Returns (val_coords v) w3)))"

text \<open>A client placing the pieces of a list one after the other.\<close>

fun place_all :: "(coords \<times> piece) list \<Rightarrow> world \<Rightarrow> unit outcome" where
  "place_all [] w = Returns () w"
| "place_all ((L, p) # rest) w = andThen (board_do (BopNewPiece L p) w) (\<lambda>_. place_all rest)"

text \<open>\<^verbatim>\<open>addPiece\<close> followed by the round in which the board registers the piece.\<close>

definition add_round :: "int \<Rightarrow> int \<Rightarrow> pieceType \<Rightarrow> world \<Rightarrow> piece outcome" where
  "add_round px py k w =
     andThen (addPiece px py k w) (\<lambda>p w1. andThen (runBoard w1) (\<lambda>_ w2. Returns p w2))"


text \<open>Squares by their usual names.\<close>

definition A1 :: coords where "A1 = \<lparr>x = 0, y = 0\<rparr>"
definition B1 :: coords where "B1 = \<lparr>x = 1, y = 0\<rparr>"
definition D2 :: coords where "D2 = \<lparr>x = 3, y = 1\<rparr>"
definition D4 :: coords where "D4 = \<lparr>x = 3, y = 3\<rparr>"

text \<open>
  Worlds reached by running the program:
  \<^item> \<open>one_pawn\<close>: \<^verbatim>\<open>addPawn(3, WHITE, b)\<close> on the fresh board, the pawn is \<open>Chan 0\<close> on D2;
  \<^item> \<open>two_pieces\<close>: \<^verbatim>\<open>addRook(0, WHITE, b)\<close> and \<^verbatim>\<open>addKnight(1, WHITE, b)\<close>, the rook is
    \<open>Chan 0\<close> on A1 and the knight \<open>Chan 2\<close> on B1;
  \<^item> \<open>captured\<close>: then the rook moves onto the knight's square with \<^verbatim>\<open>Move\<close>;
  \<^item> \<open>pawn_relocated\<close>: in \<open>one_pawn\<close>, a client sends the board the message
    \<^verbatim>\<open>bopMovePiece{D2, D4}\<close> (as \<^verbatim>\<open>parseMoveOp("D2", "D4")\<close> builds it) itself;
  \<^item> \<open>pawn_moving\<close>: in \<open>one_pawn\<close>, the pawn has sent its relocation notice and the
    board has not dispatched on it yet.
\<close>

definition one_pawn :: world where
  "one_pawn = after (add_round 3 1 \<lparr>t = PAWN, c = WHITE\<rparr> fresh)"

definition two_pieces :: world where
  "two_pieces =
     after (add_round 1 0 \<lparr>t = KNIGHT, c = WHITE\<rparr>
       (after (add_round 0 0 \<lparr>t = ROOK, c = WHITE\<rparr> fresh)))"

definition captured :: world where
  "captured = after (Move_round (Chan 0) B1 two_pieces)"

definition pawn_relocated :: world where
  "pawn_relocated = after (board_do (BopMovePiece D2 D4) one_pawn)"


section \<open>Shared facts about the primitives\<close>

lemmas prim_defs = make_chan_def piece_send_def chan_send_def chan_close_def chan_recv_def emit_def
  board_send_def store_def map_put_def map_del_def

lemma piece_ptype_live:
  assumes "actors w n = Some st"
  shows "piece_ptype (Chan n) w = Returns (pt st)
     (w\<lparr>chans := (chans w)(nextc w \<mapsto> ([], True)), nextc := Suc (nextc w),
        trace := trace w @ [PieceGot n (PopGetType (Chan (nextc w))), Sent (nextc w) (VType (pt st)), Closed (nextc w)]\<rparr>)"
  using assms
  by (simp add: piece_ptype_def prim_defs)

lemma board_do_idle:
  assumes "boardc w = None"
  shows "board_do msg w = runBoard_switch msg (emit (BoardGot msg) w)"
  using assms by (cases w) (simp add: board_do_def board_send_def emit_def runBoard_def)

lemma board_Get_idle:
  assumes "boardc w = None"
  shows "board_Get L w = Returns (case pieces w L of None \<Rightarrow> NilChan | Some p \<Rightarrow> p)
     (w\<lparr>chans := (chans w)(nextc w \<mapsto> ([], True)), nextc := Suc (nextc w),
        trace := trace w @ BoardGot (BopGetPiece L (Chan (nextc w))) #
           (case pieces w L of None \<Rightarrow> [] | Some p \<Rightarrow> [Sent (nextc w) (VPiece p)]) @ [Closed (nextc w)]\<rparr>)"
  using assms
  by (simp add: board_Get_def runBoard_def prim_defs split: option.split)

lemma returned_Get:
  assumes "boardc w = None"
  shows "returned (board_Get L w) = Some (case pieces w L of None \<Rightarrow> NilChan | Some p \<Rightarrow> p)"
  using assms by (simp add: board_Get_idle)

lemma place_ok:
  assumes "boardc w = None" "pieces w L = None" "actors w n = Some st"
  shows "\<exists>w1. board_do (BopNewPiece L (Chan n)) w = Returns () w1
         \<and> pieces w1 = (pieces w)(L \<mapsto> Chan n) \<and> boardc w1 = None \<and> actors w1 = actors w"
  using assms
  by (simp add: board_do_idle emit_def map_put_def piece_ptype_live)

lemma place_returns_frame:
  assumes "boardc w = None" "board_do (BopNewPiece L p) w = Returns u w1"
  shows "boardc w1 = None \<and> pieces w1 = (pieces w)(L \<mapsto> p)"
proof -
  from assms have sw: "runBoard_switch (BopNewPiece L p) (emit (BoardGot (BopNewPiece L p)) w) = Returns u w1"
    by (simp add: board_do_idle)
  show ?thesis
  proof (cases p)
    case NilChan
    with sw show ?thesis
      by (simp add: piece_ptype_def prim_defs split: if_splits)
  next
    case (Chan n)
    show ?thesis
    proof (cases "actors w n")
      case None
      with sw Chan show ?thesis
        by (simp add: piece_ptype_def prim_defs split: if_splits)
    next
      case (Some st)
      with sw Chan assms(1) show ?thesis
        by (auto simp add: piece_ptype_live emit_def map_put_def split: if_splits)
    qed
  qed
qed

lemma place_all_frame:
  assumes "boardc w = None" "place_all ps w = Returns u w1" "L \<notin> fst ` set ps"
  shows "boardc w1 = None \<and> pieces w1 L = pieces w L"
  using assms
proof (induction ps arbitrary: w)
  case Nil
  then show ?case by simp
next
  case (Cons a ps)
  obtain L0 p0 where a: "a = (L0, p0)" by (cases a)
  from Cons.prems a obtain w0 where
    step: "board_do (BopNewPiece L0 p0) w = Returns () w0" and rest: "place_all ps w0 = Returns u w1"
    by (cases "board_do (BopNewPiece L0 p0) w") auto
  from place_returns_frame[OF Cons.prems(1) step]
  have b0: "boardc w0 = None" and p0: "pieces w0 = (pieces w)(L0 \<mapsto> p0)" by simp_all
  from Cons.prems(3) a have ne: "L \<noteq> L0" and notin: "L \<notin> fst ` set ps" by auto
  from Cons.IH[OF b0 rest notin] p0 ne show ?case by simp
qed

lemma relocate_ok:
  assumes "boardc w = None" "pieces w src = Some (Chan n)" "actors w n = Some st"
  shows "\<exists>w1. board_do (BopMovePiece src dst) w = Returns () w1
         \<and> pieces w1 = (pieces w)(src := None, dst \<mapsto> Chan n) \<and> boardc w1 = None
         \<and> actors w1 = actors w
         \<and> trace w1 = trace w @
              [BoardGot (BopMovePiece src dst), PieceGot n (PopGetType (Chan (nextc w))),
               Sent (nextc w) (VType (pt st)), Closed (nextc w), MapDel src, MapPut dst (Chan n),
               Printed (MoveLine (pt st) src dst)]"
  using assms
  by (simp add: board_do_idle emit_def map_put_def map_del_def piece_ptype_live)

lemma delete_ok:
  assumes "boardc w = None" "actors w n = Some st"
  shows "\<exists>w1. board_do (BopDelPiece (Chan n)) w = Returns () w1
         \<and> pieces w1 = (pieces w)(loc st := None) \<and> boardc w1 = None
         \<and> actors w1 = (actors w)(n := None)
         \<and> trace w1 = trace w @
              [BoardGot (BopDelPiece (Chan n)),
               PieceGot n (PopGetCoords (Chan (Suc (nextc w)))),
               Sent (Suc (nextc w)) (VCoords (loc st)), Closed (Suc (nextc w)),
               PieceGot n (PopKill (Chan (nextc w))), Closed (nextc w), Exited n,
               MapDel (loc st), Printed (DeletedLine (loc st))]"
  using assms
  by (simp add: board_do_idle prim_defs)

lemma Move_ok:
  assumes "boardc w = None" "actors w n = Some st" "hook (Chan n) (PopMove dst) = None"
  shows "\<exists>w1. Move_with hook (Chan n) dst w = Returns None w1
         \<and> pieces w1 = pieces w \<and> boardc w1 = Some (BopMovePiece (loc st) dst)
         \<and> actors w1 = (actors w)(n \<mapsto> st\<lparr>loc := dst\<rparr>)
         \<and> chans w1 = chans w \<and> nextc w1 = nextc w
         \<and> trace w1 = trace w @
              [PieceGot n (PopMove dst), BoardGot (BopMovePiece (loc st) dst), LocSet n dst]"
  using assms
  by (simp add: Move_with_def prim_defs)



lemma piece_coords_live:
  assumes "actors w n = Some st"
  shows "returned (piece_coords (Chan n) w) = Some (loc st)"
  using assms
  by (simp add: piece_coords_def prim_defs)

lemma Move_round_ok:
  assumes "boardc w = None" "actors w n = Some st" "pieces w (loc st) = Some (Chan n)"
  shows "\<exists>w1. Move_round (Chan n) dst w = Returns None w1
         \<and> pieces w1 = (pieces w)(loc st := None, dst \<mapsto> Chan n) \<and> boardc w1 = None
         \<and> actors w1 = (actors w)(n \<mapsto> st\<lparr>loc := dst\<rparr>)"
proof -
  have hk: "piece_validate (Chan n) (PopMove dst) = None" by (simp add: piece_validate_def)
  from Move_ok[where hook = piece_validate, OF assms(1,2) hk] obtain w0 where
    m: "piece_Move (Chan n) dst w = Returns None w0" and
    p0: "pieces w0 = pieces w" and b0: "boardc w0 = Some (BopMovePiece (loc st) dst)" and
    a0: "actors w0 = (actors w)(n \<mapsto> st\<lparr>loc := dst\<rparr>)"
    unfolding piece_Move_def by blast
  from a0 have live: "actors (w0\<lparr>boardc := None\<rparr>) n = Some (st\<lparr>loc := dst\<rparr>)" by simp
  show ?thesis
    using m p0 b0 a0 assms(3) piece_ptype_live[OF live]
    by (simp add: Move_round_def runBoard_def emit_def map_put_def map_del_def)
qed

lemma add_round_ok:
  assumes "boardc w = None" "pieces w \<lparr>x = px, y = py\<rparr> = None"
  shows "\<exists>w1. add_round px py k w = Returns (Chan (nextc w)) w1
         \<and> pieces w1 = (pieces w)(\<lparr>x = px, y = py\<rparr> \<mapsto> Chan (nextc w)) \<and> boardc w1 = None
         \<and> actors w1 = (actors w)(nextc w \<mapsto> \<lparr>loc = \<lparr>x = px, y = py\<rparr>, pt = k\<rparr>)
         \<and> nextc w1 = Suc (Suc (nextc w))"
  using assms
  by (simp add: add_round_def addPiece_def go_spawnPiece_def runBoard_def piece_ptype_def prim_defs)

subsection \<open>The worlds of the scenarios\<close>

lemma squares_distinct: "A1 \<noteq> B1" "B1 \<noteq> A1" "D2 \<noteq> D4" "D4 \<noteq> D2"
  by (simp_all add: A1_def B1_def D2_def D4_def)

lemma one_pawn_fields:
  "pieces one_pawn = [D2 \<mapsto> Chan 0]" "boardc one_pawn = None"
  "actors one_pawn = [0 \<mapsto> \<lparr>loc = D2, pt = \<lparr>t = PAWN, c = WHITE\<rparr>\<rparr>]"
proof -
  have "boardc fresh = None" "pieces fresh \<lparr>x = 3, y = 1\<rparr> = None" by (simp_all add: fresh_def)
  from add_round_ok[OF this, of "\<lparr>t = PAWN, c = WHITE\<rparr>"] obtain w1 where
    "add_round 3 1 \<lparr>t = PAWN, c = WHITE\<rparr> fresh = Returns (Chan (nextc fresh)) w1"
    "pieces w1 = (pieces fresh)(\<lparr>x = 3, y = 1\<rparr> \<mapsto> Chan (nextc fresh))" "boardc w1 = None"
    "actors w1 = (actors fresh)(nextc fresh \<mapsto> \<lparr>loc = \<lparr>x = 3, y = 1\<rparr>, pt = \<lparr>t = PAWN, c = WHITE\<rparr>\<rparr>)"
    by blast
  then show "pieces one_pawn = [D2 \<mapsto> Chan 0]" "boardc one_pawn = None"
    "actors one_pawn = [0 \<mapsto> \<lparr>loc = D2, pt = \<lparr>t = PAWN, c = WHITE\<rparr>\<rparr>]"
    by (simp_all add: one_pawn_def fresh_def D2_def)
qed

lemma two_pieces_fields:
  "pieces two_pieces = [A1 \<mapsto> Chan 0, B1 \<mapsto> Chan 2]" "boardc two_pieces = None"
  "actors two_pieces = [0 \<mapsto> \<lparr>loc = A1, pt = \<lparr>t = ROOK, c = WHITE\<rparr>\<rparr>,
                        2 \<mapsto> \<lparr>loc = B1, pt = \<lparr>t = KNIGHT, c = WHITE\<rparr>\<rparr>]"
proof -
  have "boardc fresh = None" "pieces fresh \<lparr>x = 0, y = 0\<rparr> = None" by (simp_all add: fresh_def)
  from add_round_ok[OF this, of "\<lparr>t = ROOK, c = WHITE\<rparr>"] obtain w1 where w1:
    "add_round 0 0 \<lparr>t = ROOK, c = WHITE\<rparr> fresh = Returns (Chan (nextc fresh)) w1"
    "pieces w1 = (pieces fresh)(\<lparr>x = 0, y = 0\<rparr> \<mapsto> Chan (nextc fresh))" "boardc w1 = None"
    "actors w1 = (actors fresh)(nextc fresh \<mapsto> \<lparr>loc = \<lparr>x = 0, y = 0\<rparr>, pt = \<lparr>t = ROOK, c = WHITE\<rparr>\<rparr>)"
    "nextc w1 = Suc (Suc (nextc fresh))"
    by blast
  then have "boardc w1 = None" "pieces w1 \<lparr>x = 1, y = 0\<rparr> = None" by (simp_all add: fresh_def)
  from add_round_ok[OF this, of "\<lparr>t = KNIGHT, c = WHITE\<rparr>"] obtain w2 where
    "add_round 1 0 \<lparr>t = KNIGHT, c = WHITE\<rparr> w1 = Returns (Chan (nextc w1)) w2"
    "pieces w2 = (pieces w1)(\<lparr>x = 1, y = 0\<rparr> \<mapsto> Chan (nextc w1))" "boardc w2 = None"
    "actors w2 = (actors w1)(nextc w1 \<mapsto> \<lparr>loc = \<lparr>x = 1, y = 0\<rparr>, pt = \<lparr>t = KNIGHT, c = WHITE\<rparr>\<rparr>)"
    by blast
  with w1 show "pieces two_pieces = [A1 \<mapsto> Chan 0, B1 \<mapsto> Chan 2]" "boardc two_pieces = None"
    "actors two_pieces = [0 \<mapsto> \<lparr>loc = A1, pt = \<lparr>t = ROOK, c = WHITE\<rparr>\<rparr>,
                        2 \<mapsto> \<lparr>loc = B1, pt = \<lparr>t = KNIGHT, c = WHITE\<rparr>\<rparr>]"
    by (simp_all add: two_pieces_def fresh_def A1_def B1_def numeral_2_eq_2)
qed

lemma captured_fields:
  "pieces captured = [B1 \<mapsto> Chan 0]" "boardc captured = None"
  "actors captured = [0 \<mapsto> \<lparr>loc = B1, pt = \<lparr>t = ROOK, c = WHITE\<rparr>\<rparr>,
                      2 \<mapsto> \<lparr>loc = B1, pt = \<lparr>t = KNIGHT, c = WHITE\<rparr>\<rparr>]"
proof -
  have h: "boardc two_pieces = None"
    "actors two_pieces 0 = Some \<lparr>loc = A1, pt = \<lparr>t = ROOK, c = WHITE\<rparr>\<rparr>"
    "pieces two_pieces (loc \<lparr>loc = A1, pt = \<lparr>t = ROOK, c = WHITE\<rparr>\<rparr>) = Some (Chan 0)"
    by (simp_all add: two_pieces_fields A1_def B1_def)
  from Move_round_ok[OF h, of B1] obtain w1 where
    "Move_round (Chan 0) B1 two_pieces = Returns None w1"
    "pieces w1 = (pieces two_pieces)(loc \<lparr>loc = A1, pt = \<lparr>t = ROOK, c = WHITE\<rparr>\<rparr> := None, B1 \<mapsto> Chan 0)"
    "boardc w1 = None"
    "actors w1 = (actors two_pieces)(0 \<mapsto> \<lparr>loc = A1, pt = \<lparr>t = ROOK, c = WHITE\<rparr>\<rparr>\<lparr>loc := B1\<rparr>)"
    by blast
  then show "pieces captured = [B1 \<mapsto> Chan 0]" "boardc captured = None"
    "actors captured = [0 \<mapsto> \<lparr>loc = B1, pt = \<lparr>t = ROOK, c = WHITE\<rparr>\<rparr>,
                      2 \<mapsto> \<lparr>loc = B1, pt = \<lparr>t = KNIGHT, c = WHITE\<rparr>\<rparr>]"
    by (auto simp add: captured_def two_pieces_fields A1_def B1_def fun_eq_iff)
qed

lemma pawn_relocated_fields:
  "pieces pawn_relocated = [D4 \<mapsto> Chan 0]" "boardc pawn_relocated = None"
  "actors pawn_relocated = [0 \<mapsto> \<lparr>loc = D2, pt = \<lparr>t = PAWN, c = WHITE\<rparr>\<rparr>]"
proof -
  have h: "boardc one_pawn = None" "pieces one_pawn D2 = Some (Chan 0)"
    "actors one_pawn 0 = Some \<lparr>loc = D2, pt = \<lparr>t = PAWN, c = WHITE\<rparr>\<rparr>"
    by (simp_all add: one_pawn_fields)
  from relocate_ok[OF h, of D4] obtain w1 where
    "board_do (BopMovePiece D2 D4) one_pawn = Returns () w1"
    "pieces w1 = (pieces one_pawn)(D2 := None, D4 \<mapsto> Chan 0)" "boardc w1 = None"
    "actors w1 = actors one_pawn"
    by blast
  then show "pieces pawn_relocated = [D4 \<mapsto> Chan 0]" "boardc pawn_relocated = None"
    "actors pawn_relocated = [0 \<mapsto> \<lparr>loc = D2, pt = \<lparr>t = PAWN, c = WHITE\<rparr>\<rparr>]"
    by (auto simp add: pawn_relocated_def one_pawn_fields D2_def D4_def fun_eq_iff)
qed


section \<open>Relocation\<close>

text \<open>
  C1, as amended.  Let \<open>L1\<close> be occupied by the handle of a running piece that reports
  \<open>L1\<close> as its location, and let \<open>L2\<close> be any location.  \<^verbatim>\<open>Move(L2)\<close> on the handle makes
  the piece send the board Relocate(\<open>L1\<close>, \<open>L2\<close>); once the board has handled it, Lookup(\<open>L2\<close>)
  returns the handle and the piece reports \<open>L2\<close> as its location; Lookup(\<open>L1\<close>) signals
  absent (the nil handle) provided \<open>L2\<close> differs from \<open>L1\<close>.
\<close>

theorem relocate_then_lookup:
  assumes "boardc w = None" "actors w n = Some st" "pieces w L1 = Some (Chan n)" "loc st = L1"
  shows "\<exists>w1. Move_round (Chan n) L2 w = Returns None w1
         \<and> (L1 \<noteq> L2 \<longrightarrow> returned (board_Get L1 w1) = Some NilChan)
         \<and> returned (board_Get L2 w1) = Some (Chan n)
         \<and> returned (piece_coords (Chan n) w1) = Some L2"
proof -
  from assms have reg: "pieces w (loc st) = Some (Chan n)" by simp
  from Move_round_ok[OF assms(1,2) reg, of L2] obtain w1 where
    m: "Move_round (Chan n) L2 w = Returns None w1" and
    p1: "pieces w1 = (pieces w)(loc st := None, L2 \<mapsto> Chan n)" and b1: "boardc w1 = None" and
    a1: "actors w1 = (actors w)(n \<mapsto> st\<lparr>loc := L2\<rparr>)"
    by blast
  from a1 have live: "actors w1 n = Some (st\<lparr>loc := L2\<rparr>)" by simp
  from p1 assms(4) have "L1 \<noteq> L2 \<longrightarrow> returned (board_Get L1 w1) = Some NilChan"
    by (simp add: returned_Get[OF b1])
  moreover from p1 have "returned (board_Get L2 w1) = Some (Chan n)"
    by (simp add: returned_Get[OF b1])
  moreover from piece_coords_live[OF live] have "returned (piece_coords (Chan n) w1) = Some L2"
    by simp
  ultimately show ?thesis using m by blast
qed

theorem relocate_then_lookup_witness:
  "boardc one_pawn = None \<and> pieces one_pawn D2 = Some (Chan 0) \<and> D2 \<noteq> D4
   \<and> (\<exists>w1. Move_round (Chan 0) D4 one_pawn = Returns None w1
         \<and> returned (board_Get D2 w1) = Some NilChan
         \<and> returned (board_Get D4 w1) = Some (Chan 0)
         \<and> returned (piece_coords (Chan 0) w1) = Some D4)"
  using relocate_then_lookup[of one_pawn 0 "\<lparr>loc = D2, pt = \<lparr>t = PAWN, c = WHITE\<rparr>\<rparr>" D2 D4]
  by (simp add: one_pawn_fields squares_distinct)

text \<open>
  C1 as stated fails for \<open>L2 = L1\<close>: the pawn on D2 moves to D2, the board deletes the
  entry and inserts it again, and Lookup(D2) returns the pawn, not absent.
\<close>

theorem relocate_to_own_square_counterexample:
  "pieces one_pawn D2 = Some (Chan 0)
   \<and> returned (Move_round (Chan 0) D2 one_pawn) = Some None
   \<and> returned (board_Get D2 (after (Move_round (Chan 0) D2 one_pawn))) = Some (Chan 0)"
proof -
  have h: "boardc one_pawn = None"
    "actors one_pawn 0 = Some \<lparr>loc = D2, pt = \<lparr>t = PAWN, c = WHITE\<rparr>\<rparr>"
    "pieces one_pawn (loc \<lparr>loc = D2, pt = \<lparr>t = PAWN, c = WHITE\<rparr>\<rparr>) = Some (Chan 0)"
    by (simp_all add: one_pawn_fields)
  from Move_round_ok[OF h, of D2] obtain w1 where
    "Move_round (Chan 0) D2 one_pawn = Returns None w1"
    "pieces w1 = (pieces one_pawn)(loc \<lparr>loc = D2, pt = \<lparr>t = PAWN, c = WHITE\<rparr>\<rparr> := None, D2 \<mapsto> Chan 0)"
    "boardc w1 = None"
    by blast
  then show ?thesis by (simp add: one_pawn_fields returned_Get)
qed

text \<open>
  C7.  Relocate(\<open>src\<close>, \<open>dst\<close>) with nothing on \<open>src\<close> panics, and at the panic the
  occupancy map is the one before the message: no entry has been created, at \<open>dst\<close> or
  anywhere else.
\<close>

theorem relocate_from_empty_fatal:
  assumes "boardc w = None" "pieces w src = None"
  shows "\<exists>w1. board_do (BopMovePiece src dst) w = Panics (NoPieceAt src) w1 \<and> pieces w1 = pieces w"
  using assms
  by (simp add: board_do_idle emit_def)

theorem relocate_from_empty_fatal_witness:
  "boardc one_pawn = None \<and> pieces one_pawn D4 = None
   \<and> (\<exists>w1. board_do (BopMovePiece D4 D2) one_pawn = Panics (NoPieceAt D4) w1
         \<and> pieces w1 = pieces one_pawn \<and> pieces w1 D2 = Some (Chan 0))"
proof -
  have h: "boardc one_pawn = None" "pieces one_pawn D4 = None"
    by (simp_all add: one_pawn_fields squares_distinct)
  from relocate_from_empty_fatal[OF h, of D2] h show ?thesis
    by (auto simp add: one_pawn_fields)
qed

text \<open>
  C9.  Relocate(\<open>src\<close>, \<open>dst\<close>) with \<open>dst\<close> occupied by another piece, one whose only entry
  is at \<open>dst\<close>, returns without complaint: the entry at \<open>dst\<close> now holds the relocating
  piece's handle, no lookup returns the previous occupant any more, its goroutine is as
  it was, and the only message any piece received is the relocating piece's
  \<^verbatim>\<open>popGetType\<close> (so the previous occupant was never sent \<^verbatim>\<open>popKill\<close>).
\<close>

theorem relocate_onto_occupied:
  assumes "boardc w = None" "pieces w src = Some (Chan n)" "actors w n = Some st"
    "pieces w dst = Some (Chan m)" "m \<noteq> n" "\<forall>L. pieces w L = Some (Chan m) \<longrightarrow> L = dst"
  shows "\<exists>w1. board_do (BopMovePiece src dst) w = Returns () w1
         \<and> pieces w1 dst = Some (Chan n)
         \<and> (\<forall>L. returned (board_Get L w1) \<noteq> Some (Chan m))
         \<and> actors w1 m = actors w m
         \<and> trace w1 = trace w @
              [BoardGot (BopMovePiece src dst), PieceGot n (PopGetType (Chan (nextc w))),
               Sent (nextc w) (VType (pt st)), Closed (nextc w), MapDel src, MapPut dst (Chan n),
               Printed (MoveLine (pt st) src dst)]"
proof -
  from relocate_ok[OF assms(1,2,3), of dst] obtain w1 where
    r: "board_do (BopMovePiece src dst) w = Returns () w1" and
    p1: "pieces w1 = (pieces w)(src := None, dst \<mapsto> Chan n)" and b1: "boardc w1 = None" and
    a1: "actors w1 = actors w" and
    t1: "trace w1 = trace w @
              [BoardGot (BopMovePiece src dst), PieceGot n (PopGetType (Chan (nextc w))),
               Sent (nextc w) (VType (pt st)), Closed (nextc w), MapDel src, MapPut dst (Chan n),
               Printed (MoveLine (pt st) src dst)]"
    by blast
  have unreachable: "returned (board_Get L w1) \<noteq> Some (Chan m)" for L
  proof (cases "L = dst")
    case True
    with p1 assms(5) show ?thesis by (simp add: returned_Get[OF b1])
  next
    case False
    with assms(6) have "pieces w L \<noteq> Some (Chan m)" by blast
    with p1 False show ?thesis
      by (cases "pieces w L") (simp_all add: returned_Get[OF b1])
  qed
  from p1 have "pieces w1 dst = Some (Chan n)" by simp
  moreover from a1 have "actors w1 m = actors w m" by simp
  ultimately show ?thesis using r t1 unreachable by blast
qed

theorem relocate_onto_occupied_witness:
  "boardc two_pieces = None \<and> pieces two_pieces = [A1 \<mapsto> Chan 0, B1 \<mapsto> Chan 2]
   \<and> (\<exists>w1. board_do (BopMovePiece A1 B1) two_pieces = Returns () w1
         \<and> pieces w1 B1 = Some (Chan 0)
         \<and> (\<forall>L. returned (board_Get L w1) \<noteq> Some (Chan 2))
         \<and> actors w1 2 = Some \<lparr>loc = B1, pt = \<lparr>t = KNIGHT, c = WHITE\<rparr>\<rparr>)"
proof -
  have h: "boardc two_pieces = None" "pieces two_pieces A1 = Some (Chan 0)"
    "actors two_pieces 0 = Some \<lparr>loc = A1, pt = \<lparr>t = ROOK, c = WHITE\<rparr>\<rparr>"
    "pieces two_pieces B1 = Some (Chan 2)" "(2::nat) \<noteq> 0"
    "\<forall>L. pieces two_pieces L = Some (Chan 2) \<longrightarrow> L = B1"
    by (simp_all add: two_pieces_fields squares_distinct)
  have k: "actors two_pieces 2 = Some \<lparr>loc = B1, pt = \<lparr>t = KNIGHT, c = WHITE\<rparr>\<rparr>"
    by (simp add: two_pieces_fields)
  from relocate_onto_occupied[OF h] obtain w1 where
    "board_do (BopMovePiece A1 B1) two_pieces = Returns () w1"
    "pieces w1 B1 = Some (Chan 0)"
    "\<forall>L. returned (board_Get L w1) \<noteq> Some (Chan 2)"
    "actors w1 2 = actors two_pieces 2"
    by blast
  with h(1) k two_pieces_fields(1) show ?thesis by simp
qed

section \<open>Placement and lookup\<close>

text \<open>
  C2.  Placing the handle of a running piece at an unoccupied location \<open>L\<close> and then
  looking \<open>L\<close> up returns that handle; and on a board started empty, after any run of
  placements none of which is at \<open>L\<close>, looking \<open>L\<close> up signals absent (the nil handle).
\<close>

theorem place_then_lookup:
  assumes "boardc w = None"
  shows "(pieces w L = None \<longrightarrow> actors w n = Some st \<longrightarrow>
            (\<exists>w1. board_do (BopNewPiece L (Chan n)) w = Returns () w1
                  \<and> returned (board_Get L w1) = Some (Chan n)))
       \<and> (pieces w = Map.empty \<longrightarrow> place_all ps w = Returns () w2 \<longrightarrow> L \<notin> fst ` set ps \<longrightarrow>
            returned (board_Get L w2) = Some NilChan)"
proof (intro conjI impI)
  assume "pieces w L = None" "actors w n = Some st"
  from place_ok[OF assms this] obtain w1 where
    "board_do (BopNewPiece L (Chan n)) w = Returns () w1" "pieces w1 = (pieces w)(L \<mapsto> Chan n)" "boardc w1 = None"
    by blast
  then show "\<exists>w1. board_do (BopNewPiece L (Chan n)) w = Returns () w1
                  \<and> returned (board_Get L w1) = Some (Chan n)"
    by (simp add: returned_Get)
next
  assume e: "pieces w = Map.empty" and r: "place_all ps w = Returns () w2" and n: "L \<notin> fst ` set ps"
  from place_all_frame[OF assms r n] e show "returned (board_Get L w2) = Some NilChan"
    by (simp add: returned_Get)
qed

theorem place_then_lookup_witness:
  "boardc (go_spawnPiece (Chan 0) fresh) = None \<and> pieces (go_spawnPiece (Chan 0) fresh) D2 = None
   \<and> (\<exists>w1. board_do (BopNewPiece D2 (Chan 0)) (go_spawnPiece (Chan 0) fresh) = Returns () w1
         \<and> returned (board_Get D2 w1) = Some (Chan 0))
   \<and> pieces (go_spawnPiece (Chan 0) fresh) = Map.empty
   \<and> D2 \<notin> fst ` set [(A1, Chan 0)]
   \<and> (\<exists>w2. place_all [(A1, Chan 0)] (go_spawnPiece (Chan 0) fresh) = Returns () w2
         \<and> returned (board_Get D2 w2) = Some NilChan)"
proof -
  let ?w = "go_spawnPiece (Chan 0) fresh"
  have h: "boardc ?w = None" "pieces ?w D2 = None" "pieces ?w = Map.empty"
    "actors ?w 0 = Some \<lparr>loc = zero_coords, pt = zero_pieceType\<rparr>"
    by (simp_all add: go_spawnPiece_def store_def fresh_def)
  have n: "D2 \<notin> fst ` set [(A1, Chan 0)]" by (simp add: A1_def D2_def)
  from h(3) have "pieces ?w A1 = None" by simp
  from place_ok[OF h(1) this h(4)] obtain w0 where
    "board_do (BopNewPiece A1 (Chan 0)) ?w = Returns () w0" by blast
  then have r: "place_all [(A1, Chan 0)] ?w = Returns () w0" by simp
  from place_then_lookup[OF h(1), of D2 0 "\<lparr>loc = zero_coords, pt = zero_pieceType\<rparr>"
        "[(A1, Chan 0)]" w0] h n r
  have "(\<exists>w1. board_do (BopNewPiece D2 (Chan 0)) ?w = Returns () w1
         \<and> returned (board_Get D2 w1) = Some (Chan 0))"
    and "returned (board_Get D2 w0) = Some NilChan"
    by blast+
  with h n r show ?thesis by blast
qed

text \<open>
  C6.  Placing a piece at an occupied location panics; at the panic the occupancy map is
  unchanged, and a lookup of the location in that state returns the original handle.
\<close>

theorem duplicate_place_fatal:
  assumes "boardc w = None" "pieces w L = Some h"
  shows "\<exists>w1. board_do (BopNewPiece L p) w = Panics (PieceAlreadyExists L) w1
          \<and> pieces w1 = pieces w \<and> returned (board_Get L w1) = Some h"
  using assms
  by (simp add: board_do_idle emit_def returned_Get)

theorem duplicate_place_fatal_witness:
  "boardc two_pieces = None \<and> pieces two_pieces A1 = Some (Chan 0)
   \<and> (\<exists>w1. board_do (BopNewPiece A1 (Chan 2)) two_pieces = Panics (PieceAlreadyExists A1) w1
         \<and> pieces w1 = pieces two_pieces \<and> returned (board_Get A1 w1) = Some (Chan 0))"
proof -
  have h: "boardc two_pieces = None" "pieces two_pieces A1 = Some (Chan 0)"
    by (simp_all add: two_pieces_fields squares_distinct)
  from duplicate_place_fatal[OF h, of "Chan 2"] h show ?thesis by blast
qed

text \<open>
  C10.  With the board waiting for a message, \<^verbatim>\<open>Get\<close> always returns; for an unoccupied
  location it returns the nil handle, the zero value received from the reply channel
  that the board closed without sending on it.
\<close>

theorem Get_absent_nil:
  assumes "boardc w = None"
  shows "(\<exists>p w1. board_Get L w = Returns p w1)
       \<and> (pieces w L = None \<longrightarrow>
            (\<exists>w1. board_Get L w = Returns NilChan w1 \<and> chans w1 (nextc w) = Some ([], True)))"
  using assms
  by (simp add: board_Get_idle)

theorem Get_absent_nil_witness:
  "boardc one_pawn = None \<and> pieces one_pawn D4 = None
   \<and> (\<exists>w1. board_Get D4 one_pawn = Returns NilChan w1 \<and> chans w1 (nextc one_pawn) = Some ([], True))
   \<and> (\<exists>p w1. board_Get D2 one_pawn = Returns p w1)"
proof -
  have h: "boardc one_pawn = None" "pieces one_pawn D4 = None"
    by (simp_all add: one_pawn_fields squares_distinct)
  from Get_absent_nil[OF h(1), of D4] Get_absent_nil[OF h(1), of D2] h show ?thesis by blast
qed

section \<open>Deletion\<close>

text \<open>
  C3, as amended.  Delete of the handle of a running piece that is registered at the
  location the piece itself reports proceeds in this order: the board asks the piece for
  its location over a private reply channel, sends it \<^verbatim>\<open>popKill\<close> and waits for the
  acknowledgment channel to be closed, then removes the entry at the reported location.
  Exactly that one entry leaves the occupancy map, and every later send to the piece
  blocks.
\<close>

theorem delete_registered:
  assumes "boardc w = None" "actors w n = Some st" "pieces w (loc st) = Some (Chan n)"
  shows "\<exists>w1. board_do (BopDelPiece (Chan n)) w = Returns () w1
         \<and> trace w1 = trace w @
              [BoardGot (BopDelPiece (Chan n)),
               PieceGot n (PopGetCoords (Chan (Suc (nextc w)))),
               Sent (Suc (nextc w)) (VCoords (loc st)), Closed (Suc (nextc w)),
               PieceGot n (PopKill (Chan (nextc w))), Closed (nextc w), Exited n,
               MapDel (loc st), Printed (DeletedLine (loc st))]
         \<and> pieces w1 = (pieces w)(loc st := None)
         \<and> loc st \<in> dom (pieces w) \<and> dom (pieces w1) = dom (pieces w) - {loc st}
         \<and> (\<forall>op. piece_send (Chan n) op w1 = Blocks w1)"
proof -
  from delete_ok[OF assms(1,2)] obtain w1 where
    d: "board_do (BopDelPiece (Chan n)) w = Returns () w1" and
    p1: "pieces w1 = (pieces w)(loc st := None)" and
    a1: "actors w1 = (actors w)(n := None)" and
    t1: "trace w1 = trace w @
              [BoardGot (BopDelPiece (Chan n)),
               PieceGot n (PopGetCoords (Chan (Suc (nextc w)))),
               Sent (Suc (nextc w)) (VCoords (loc st)), Closed (Suc (nextc w)),
               PieceGot n (PopKill (Chan (nextc w))), Closed (nextc w), Exited n,
               MapDel (loc st), Printed (DeletedLine (loc st))]"
    by blast
  from a1 have "\<forall>op. piece_send (Chan n) op w1 = Blocks w1" by (simp add: piece_send_def)
  moreover from assms(3) have "loc st \<in> dom (pieces w)" by blast
  moreover from p1 have "dom (pieces w1) = dom (pieces w) - {loc st}" by simp
  ultimately show ?thesis using d p1 t1 by blast
qed

theorem delete_registered_witness:
  "boardc one_pawn = None \<and> pieces one_pawn D2 = Some (Chan 0)
   \<and> (\<exists>w1. board_do (BopDelPiece (Chan 0)) one_pawn = Returns () w1
         \<and> pieces w1 = Map.empty
         \<and> piece_send (Chan 0) (PopGetCoords NilChan) w1 = Blocks w1)"
  using delete_registered[of one_pawn 0 "\<lparr>loc = D2, pt = \<lparr>t = PAWN, c = WHITE\<rparr>\<rparr>"]
  by (auto simp add: one_pawn_fields)

text \<open>
  C3 as stated fails when the piece is registered at one location and reports another:
  after a client has sent the board \<^verbatim>\<open>bopMovePiece{D2, D4}\<close> itself, the pawn is
  registered at D4 and still reports D2; Delete then removes no entry at all.
\<close>

theorem delete_stale_location_counterexample:
  "pieces pawn_relocated D4 = Some (Chan 0)
   \<and> returned (board_do (BopDelPiece (Chan 0)) pawn_relocated) = Some ()
   \<and> pieces (after (board_do (BopDelPiece (Chan 0)) pawn_relocated)) = pieces pawn_relocated"
proof -
  have h: "boardc pawn_relocated = None"
    "actors pawn_relocated 0 = Some \<lparr>loc = D2, pt = \<lparr>t = PAWN, c = WHITE\<rparr>\<rparr>"
    by (simp_all add: pawn_relocated_fields)
  from delete_ok[OF h] obtain w1 where
    "board_do (BopDelPiece (Chan 0)) pawn_relocated = Returns () w1"
    "pieces w1 = (pieces pawn_relocated)(loc \<lparr>loc = D2, pt = \<lparr>t = PAWN, c = WHITE\<rparr>\<rparr> := None)"
    by blast
  then show ?thesis by (auto simp add: pawn_relocated_fields squares_distinct fun_eq_iff)
qed

text \<open>
  C5, as amended.  Delete of the handle of a running piece that is registered at no
  location is not detected: the board terminates the piece, removes whatever entry is
  stored at the location the piece reports, and waits for its next message.
\<close>

theorem delete_unregistered_continues:
  assumes "boardc w = None" "actors w n = Some st" "\<forall>L. pieces w L \<noteq> Some (Chan n)"
  shows "\<exists>w1. board_do (BopDelPiece (Chan n)) w = Returns () w1
         \<and> pieces w1 = (pieces w)(loc st := None) \<and> actors w1 = (actors w)(n := None)
         \<and> boardc w1 = None"
  using delete_ok[OF assms(1,2)] by blast

theorem delete_unregistered_continues_witness:
  "boardc captured = None \<and> (\<forall>L. pieces captured L \<noteq> Some (Chan 2))
   \<and> (\<exists>w1. board_do (BopDelPiece (Chan 2)) captured = Returns () w1
         \<and> pieces w1 = Map.empty \<and> boardc w1 = None)"
proof -
  have h: "boardc captured = None"
    "actors captured 2 = Some \<lparr>loc = B1, pt = \<lparr>t = KNIGHT, c = WHITE\<rparr>\<rparr>"
    "\<forall>L. pieces captured L \<noteq> Some (Chan 2)"
    by (simp_all add: captured_fields)
  from delete_unregistered_continues[OF h] h show ?thesis
    by (auto simp add: captured_fields)
qed

text \<open>
  C5 as stated fails: after the rook has moved onto the knight's square, the knight is
  registered nowhere; Delete of the knight returns, and it has removed the rook's entry.
\<close>

theorem delete_unregistered_counterexample:
  "ran (pieces captured) = {Chan 0}
   \<and> returned (board_do (BopDelPiece (Chan 2)) captured) = Some ()
   \<and> pieces (after (board_do (BopDelPiece (Chan 2)) captured)) = Map.empty"
proof -
  have h: "boardc captured = None"
    "actors captured 2 = Some \<lparr>loc = B1, pt = \<lparr>t = KNIGHT, c = WHITE\<rparr>\<rparr>"
    by (simp_all add: captured_fields)
  from delete_ok[OF h] obtain w1 where
    "board_do (BopDelPiece (Chan 2)) captured = Returns () w1"
    "pieces w1 = (pieces captured)(loc \<lparr>loc = B1, pt = \<lparr>t = KNIGHT, c = WHITE\<rparr>\<rparr> := None)"
    by blast
  then show ?thesis by (simp add: captured_fields)
qed

section \<open>The legality hook\<close>



section \<open>The location codec\<close>

text \<open>
  C4.  \<^verbatim>\<open>Scan\<close> compares the column rune with \<^verbatim>\<open>'G'\<close>, so it rejects the squares of
  column H, which lie on the grid and which \<^verbatim>\<open>String\<close> prints: \<^verbatim>\<open>"H1"\<close> is refused
  although \<^verbatim>\<open>coords{7, 0}\<close> formats as \<^verbatim>\<open>"H1"\<close>.
\<close>

theorem Scan_rejects_column_H:
  "fst (coords_Scan (runes ''H1'')) = Inl (IllegalChessCoordinates (rune_of CHR ''H'') (rune_of CHR ''1''))
   \<and> coords_String \<lparr>x = 7, y = 0\<rparr> = Inr ''H1''"
  by (simp add: coords_Scan_def ReadRune_def runes_def rune_of_def coords_String_def)

text \<open>What \<^verbatim>\<open>Scan\<close> accepts lies on the grid, and columns A to G are parsed as expected.\<close>

lemma Scan_in_grid:
  assumes "fst (coords_Scan state) = Inr L"
  shows "0 \<le> x L \<and> x L \<le> 6 \<and> 0 \<le> y L \<and> y L \<le> 7"
  using assms
  by (auto simp add: coords_Scan_def ReadRune_def rune_of_def split: list.splits if_splits prod.splits)

lemma Scan_columns_A_to_G:
  assumes "0 \<le> i" "i \<le> 6" "0 \<le> j" "j \<le> 7"
  shows "fst (coords_Scan [rune_of CHR ''A'' + i, rune_of CHR ''1'' + j]) = Inr \<lparr>x = i, y = j\<rparr>"
  using assms
  by (simp add: coords_Scan_def ReadRune_def rune_of_def)

end
